theory Spec2Isabelle
  imports Main
begin

section \<open>Data model of \<^verbatim>\<open>main.py\<close>\<close>

text \<open>
  Python's \<^verbatim>\<open>datetime\<close> and \<^verbatim>\<open>timedelta\<close> count whole microseconds, so both are
  integers here: a \<open>datetime\<close> is the number of microseconds since a fixed origin and a
  \<open>timedelta\<close> is a signed number of microseconds. Subtracting two datetimes and comparing
  two timedeltas are then the integer operations.
\<close>

type_synonym datetime = int
type_synonym timedelta = int

definition timedelta_minutes :: "int \<Rightarrow> timedelta" where
  "timedelta_minutes n = n * 60000000"

text \<open>One value of the dictionary \<^verbatim>\<open>users\<close>: the two keys every stored entry has.\<close>

record user =
  verified :: bool
  verification_token :: string

text \<open>The three module-level dictionaries.\<close>

record state =
  request_counts :: "string \<rightharpoonup> datetime"
  last_contact_time :: "string \<rightharpoonup> datetime"
  users :: "string \<rightharpoonup> user"

definition initial_state :: state where
  "initial_state = \<lparr>request_counts = Map.empty, last_contact_time = Map.empty, users = Map.empty\<rparr>"

text \<open>
  The request carries the caller's network address (\<^verbatim>\<open>request.client.host\<close>); the two
  pydantic models carry one string each.
\<close>

record Address =
  host :: string

record Request =
  client :: Address

datatype UserRegistration = UserRegistration string

fun registration_email :: "UserRegistration \<Rightarrow> string" where
  "registration_email (UserRegistration e) = e"

datatype ContactCreate = ContactCreate string

fun contact_email :: "ContactCreate \<Rightarrow> string" where
  "contact_email (ContactCreate e) = e"

type_synonym binary_stream = string

record UploadFile =
  avatar_file :: binary_stream

text \<open>
  Exceptions are values. The detail of the throttle's 429 is an f-string around
  \<^verbatim>\<open>time_to_wait.total_seconds()\<close>; \<open>TryAgainIn\<close> keeps the \<open>timedelta\<close> that is
  rendered there, in microseconds. \<open>UploadError\<close> is whatever the media store's client
  raises, \<open>KeyError\<close> a missing key of the dictionary it returns.
\<close>

datatype detail = Text string | TryAgainIn timedelta

datatype exn =
    HTTPException nat detail
  | UploadError string
  | KeyError string

text \<open>
  What a handler does to the outside: a task handed to \<^verbatim>\<open>background_tasks\<close>
  (\<^verbatim>\<open>send_verification_email\<close> with its two arguments) and a call of the media store's
  \<^verbatim>\<open>upload\<close>.
\<close>

datatype effect = AddTask string string | Upload binary_stream

type_synonym response = "(string \<times> string) list"

record outcome =
  state_after :: state
  effects :: "effect list"
  result :: "exn + response"

section \<open>The cooldown check\<close>

text \<open>\<open>now\<close> is the value \<^verbatim>\<open>datetime.now()\<close> returns at line 61.\<close>

definition can_create_contact :: "string \<Rightarrow> timedelta \<Rightarrow> datetime \<Rightarrow> state \<Rightarrow> bool" where
  "can_create_contact user_id per now st =
     (case last_contact_time st user_id of
        Some last_contact \<Rightarrow>
          (let time_elapsed = now - last_contact
           in if time_elapsed < per then False else True)
      | None \<Rightarrow> True)"

section \<open>The throttling decorator\<close>

text \<open>
  \<open>now_check\<close> is the clock read at line 83 (only when the origin has an entry),
  \<open>now_record\<close> the one at line 92. The wrapped handler \<open>func\<close> receives the request,
  its remaining arguments and the state with the origin's entry already written.
\<close>

definition rate_limit ::
  "int \<Rightarrow> timedelta \<Rightarrow> (Request \<Rightarrow> 'a \<Rightarrow> state \<Rightarrow> outcome) \<Rightarrow>
   datetime \<Rightarrow> datetime \<Rightarrow> Request \<Rightarrow> 'a \<Rightarrow> state \<Rightarrow> outcome" where
  "rate_limit limit per func now_check now_record request args st =
     (let user_id = host (client request)
      in case (case request_counts st user_id of
                 Some last_request_time \<Rightarrow>
                   (let time_elapsed = now_check - last_request_time
                    in if time_elapsed < per
                       then (let time_to_wait = per - time_elapsed
                             in Some (HTTPException 429 (TryAgainIn time_to_wait)))
                       else None)
               | None \<Rightarrow> None) of
           Some e \<Rightarrow> \<lparr>state_after = st, effects = [], result = Inl e\<rparr>
         | None \<Rightarrow>
             func request args (st\<lparr>request_counts := (request_counts st)(user_id \<mapsto> now_record)\<rparr>))"

section \<open>Registration and verification\<close>

text \<open>
  \<open>parseaddr\<close> is the standard library's \<^verbatim>\<open>email.utils.parseaddr\<close> and
  \<open>uuid4_str\<close> the string \<^verbatim>\<open>str(uuid4())\<close> drawn for this call; both come
  from outside the module and are parameters.
\<close>

definition register_user ::
  "(string \<Rightarrow> string \<times> string) \<Rightarrow> string \<Rightarrow> UserRegistration \<Rightarrow> state \<Rightarrow> outcome" where
  "register_user parseaddr uuid4_str user_data st =
     (let email_address = snd (parseaddr (registration_email user_data))
      in if email_address = [] \<or> CHR ''@'' \<notin> set (registration_email user_data)
         then \<lparr>state_after = st, effects = [],
               result = Inl (HTTPException 400 (Text ''Invalid email address''))\<rparr>
         else \<lparr>state_after =
                 st\<lparr>users := (users st)(registration_email user_data \<mapsto>
                       \<lparr>verified = False, verification_token = uuid4_str\<rparr>)\<rparr>,
               effects = [AddTask (registration_email user_data) uuid4_str],
               result = Inr [(''message'',
                 ''User registered successfully. Verification email sent.'')]\<rparr>)"

definition verify_email :: "string \<Rightarrow> string \<Rightarrow> state \<Rightarrow> outcome" where
  "verify_email email token st =
     (case users st email of
        None \<Rightarrow> \<lparr>state_after = st, effects = [],
                  result = Inl (HTTPException 400 (Text ''Invalid email or token''))\<rparr>
      | Some u \<Rightarrow>
          if verification_token u \<noteq> token
          then \<lparr>state_after = st, effects = [],
                result = Inl (HTTPException 400 (Text ''Invalid email or token''))\<rparr>
          else \<lparr>state_after = st\<lparr>users := (users st)(email \<mapsto> u\<lparr>verified := True\<rparr>)\<rparr>,
                effects = [],
                result = Inr [(''message'', ''Email verified successfully'')]\<rparr>)"

text \<open>The guard of line 161, negated: the identity has an entry and its flag is set.\<close>

definition is_verified :: "state \<Rightarrow> string \<Rightarrow> bool" where
  "is_verified st email = (case users st email of None \<Rightarrow> False | Some u \<Rightarrow> verified u)"

section \<open>Contact creation\<close>

text \<open>
  The body of \<^verbatim>\<open>create_contact\<close>. \<open>now_cooldown\<close> is the clock read inside
  \<^verbatim>\<open>can_create_contact\<close>, \<open>now_commit\<close> the one at line 171, and \<open>upload\<close> is
  \<^verbatim>\<open>cloudinary.uploader.upload\<close>: it raises (\<open>Inl\<close>) or returns a dictionary.
\<close>

definition create_contact ::
  "datetime \<Rightarrow> datetime \<Rightarrow> (binary_stream \<Rightarrow> string + (string \<rightharpoonup> string)) \<Rightarrow>
   Request \<Rightarrow> ContactCreate \<times> UploadFile \<Rightarrow> state \<Rightarrow> outcome" where
  "create_contact now_cooldown now_commit upload request args st =
     (let contact_data = fst args; avatar = snd args;
          user_email = contact_email contact_data
      in if \<not> is_verified st user_email
         then \<lparr>state_after = st, effects = [],
               result = Inl (HTTPException 401 (Text ''User not registered or not verified''))\<rparr>
         else if \<not> can_create_contact user_email (timedelta_minutes 1) now_cooldown st
         then \<lparr>state_after = st, effects = [],
               result = Inl (HTTPException 429 (Text ''Too Many Requests. Try again later.''))\<rparr>
         else
           (let st' = st\<lparr>last_contact_time := (last_contact_time st)(user_email \<mapsto> now_commit)\<rparr>
            in case upload (avatar_file avatar) of
                 Inl e \<Rightarrow> \<lparr>state_after = st', effects = [Upload (avatar_file avatar)],
                           result = Inl (UploadError e)\<rparr>
               | Inr upload_result \<Rightarrow>
                   (case upload_result ''secure_url'' of
                      None \<Rightarrow> \<lparr>state_after = st', effects = [Upload (avatar_file avatar)],
                                result = Inl (KeyError ''secure_url'')\<rparr>
                    | Some avatar_url \<Rightarrow>
                        \<lparr>state_after = st', effects = [Upload (avatar_file avatar)],
                         result = Inr [(''message'', ''Contact created successfully''),
                                       (''avatar_url'', avatar_url)]\<rparr>)))"

text \<open>The handler as it is registered: decorated with \<^verbatim>\<open>limit=5\<close> and one minute.\<close>

definition create_contact_route ::
  "datetime \<Rightarrow> datetime \<Rightarrow> datetime \<Rightarrow> datetime \<Rightarrow> (binary_stream \<Rightarrow> string + (string \<rightharpoonup> string)) \<Rightarrow>
   Request \<Rightarrow> ContactCreate \<times> UploadFile \<Rightarrow> state \<Rightarrow> outcome" where
  "create_contact_route now_check now_record now_cooldown now_commit upload =
     rate_limit 5 (timedelta_minutes 1) (create_contact now_cooldown now_commit upload)
       now_check now_record"

section \<open>The system as a transition function\<close>

text \<open>
  One request to one of the three routes, with everything the handler reads from outside:
  the token drawn at registration and the four clock reads of contact creation (lines 83,
  92, 61 and 171, in this order).
\<close>

datatype operation =
    Register UserRegistration string
  | Verify string string
  | CreateContact Request ContactCreate UploadFile datetime datetime datetime datetime

fun step ::
  "(string \<Rightarrow> string \<times> string) \<Rightarrow> (binary_stream \<Rightarrow> string + (string \<rightharpoonup> string)) \<Rightarrow>
   operation \<Rightarrow> state \<Rightarrow> outcome" where
  "step parseaddr upload (Register user_data uuid4_str) st =
     register_user parseaddr uuid4_str user_data st"
| "step parseaddr upload (Verify email token) st = verify_email email token st"
| "step parseaddr upload
     (CreateContact request contact_data avatar now_check now_record now_cooldown now_commit) st =
     create_contact_route now_check now_record now_cooldown now_commit upload
       request (contact_data, avatar) st"

fun run ::
  "(string \<Rightarrow> string \<times> string) \<Rightarrow> (binary_stream \<Rightarrow> string + (string \<rightharpoonup> string)) \<Rightarrow>
   operation list \<Rightarrow> state \<Rightarrow> state" where
  "run parseaddr upload [] st = st"
| "run parseaddr upload (x # xs) st = run parseaddr upload xs (state_after (step parseaddr upload x st))"

subsection \<open>Collaborators used at concrete inputs\<close>

text \<open>
  On a bare address such as \<^verbatim>\<open>a@example.com\<close> the library's \<^verbatim>\<open>parseaddr\<close> returns
  an empty display name and the address itself, and on the empty string two empty strings;
  \<open>parseaddr_bare\<close> is that behaviour, used only where such a string is the input. The two
  uploads are a media store that answers with a URL and one that raises.
\<close>

definition parseaddr_bare :: "string \<Rightarrow> string \<times> string" where
  "parseaddr_bare s = ([], s)"

definition upload_ok :: "binary_stream \<Rightarrow> string + (string \<rightharpoonup> string)" where
  "upload_ok f = Inr [''secure_url'' \<mapsto> ''https://res.example/avatar.png'']"

definition upload_raises :: "binary_stream \<Rightarrow> string + (string \<rightharpoonup> string)" where
  "upload_raises f = Inl ''Error''"

definition request_from :: "string \<Rightarrow> Request" where
  "request_from h = \<lparr>client = \<lparr>host = h\<rparr>\<rparr>"

definition alice :: string where
  "alice = ''a@example.com''"

text \<open>The state after \<open>alice\<close> registered with token \<open>T\<close> and verified with it.\<close>

definition alice_verified :: state where
  "alice_verified =
     run parseaddr_bare upload_ok
       [Register (UserRegistration alice) ''T'', Verify alice ''T''] initial_state"

text \<open>The state after \<open>alice\<close> registered with token \<open>T\<close>, before any verification.\<close>

definition alice_registered :: state where
  "alice_registered =
     run parseaddr_bare upload_ok [Register (UserRegistration alice) ''T''] initial_state"

definition png :: UploadFile where
  "png = \<lparr>avatar_file = ''png''\<rparr>"

section \<open>Requests served one after another\<close>


fun create_contacts ::
  "(binary_stream \<Rightarrow> string + (string \<rightharpoonup> string)) \<Rightarrow>
   (datetime \<times> datetime \<times> Request \<times> ContactCreate \<times> UploadFile) list \<Rightarrow>
   state \<Rightarrow> outcome list" where
  "create_contacts upload [] st = []"
| "create_contacts upload ((now_cooldown, now_commit, request, args) # rest) st =
     (let out = create_contact now_cooldown now_commit upload request args st
      in out # create_contacts upload rest (state_after out))"


definition cooldown_refused :: "outcome \<Rightarrow> bool" where
  "cooldown_refused out \<longleftrightarrow>
     result out = Inl (HTTPException 429 (Text ''Too Many Requests. Try again later.''))"

section \<open>Frame and gate lemmas\<close>

text \<open>The body of contact creation writes neither \<open>users\<close> nor \<open>request_counts\<close>.\<close>

lemma create_contact_users: "users (state_after (create_contact k m up rq a st)) = users st"
  by (simp add: create_contact_def Let_def split: sum.splits option.splits)

lemma create_contact_request_counts:
  "request_counts (state_after (create_contact k m up rq a st)) = request_counts st"
  by (simp add: create_contact_def Let_def split: sum.splits option.splits)

lemma route_users: "users (state_after (create_contact_route c r k m up rq a st)) = users st"
  by (simp add: create_contact_route_def rate_limit_def Let_def create_contact_users
      split: option.splits)

text \<open>The two ways through the decorator.\<close>

lemma rate_limit_passes:
  assumes "request_counts st (host (client req)) = None \<or>
           (\<exists>t. request_counts st (host (client req)) = Some t \<and> per \<le> c - t)"
  shows "rate_limit limit per func c r req args st =
         func req args (st\<lparr>request_counts := (request_counts st)(host (client req) \<mapsto> r)\<rparr>)"
  using assms by (auto simp: rate_limit_def Let_def)

lemma rate_limit_rejects:
  assumes "request_counts st (host (client req)) = Some t" and "c - t < per"
  shows "rate_limit limit per func c r req args st =
         \<lparr>state_after = st, effects = [],
          result = Inl (HTTPException 429 (TryAgainIn (per - (c - t))))\<rparr>"
  using assms by (simp add: rate_limit_def Let_def)

lemma alice_verified_users:
  "users alice_verified = [alice \<mapsto> \<lparr>verified = True, verification_token = ''T''\<rparr>]"
  by (simp add: alice_verified_def register_user_def verify_email_def parseaddr_bare_def
      alice_def initial_state_def)

lemma alice_verified_gates:
  "request_counts alice_verified = Map.empty" "last_contact_time alice_verified = Map.empty"
  by (simp_all add: alice_verified_def register_user_def verify_email_def parseaddr_bare_def
      alice_def initial_state_def)

lemma alice_registered_eq:
  "alice_registered = \<lparr>request_counts = Map.empty, last_contact_time = Map.empty,
     users = [alice \<mapsto> \<lparr>verified = False, verification_token = ''T''\<rparr>]\<rparr>"
  by (simp add: alice_registered_def register_user_def parseaddr_bare_def alice_def
      initial_state_def)

text \<open>What a successful contact creation implies, for the body and for the route.\<close>

lemma create_contact_success:
  assumes "result (create_contact k m up rq (cd, av) st) = Inr resp"
  shows "is_verified st (contact_email cd) \<and>
         last_contact_time (state_after (create_contact k m up rq (cd, av) st))
           (contact_email cd) = Some m"
  using assms
  by (auto simp: create_contact_def Let_def split: if_splits sum.splits option.splits)

lemma route_success:
  assumes "result (create_contact_route c r k m up rq (cd, av) st) = Inr resp"
  shows "is_verified st (contact_email cd) \<and>
         last_contact_time (state_after (create_contact_route c r k m up rq (cd, av) st))
           (contact_email cd) = Some m"
proof -
  let ?st' = "st\<lparr>request_counts := (request_counts st)(host (client rq) \<mapsto> r)\<rparr>"
  have eq: "create_contact_route c r k m up rq (cd, av) st =
            create_contact k m up rq (cd, av) ?st'"
    using assms
    by (auto simp: create_contact_route_def rate_limit_def Let_def
        split: option.splits if_splits)
  from assms create_contact_success[of k m up rq cd av ?st' resp] show ?thesis
    unfolding eq by (simp add: is_verified_def)
qed

lemma can_create_contact_within:
  assumes "last_contact_time st I = Some t" and "now - t < per"
  shows "\<not> can_create_contact I per now st"
  using assms by (simp add: can_create_contact_def Let_def)






lemma create_contacts_within_entry:
  assumes "last_contact_time st I = Some t" and "t0 \<le> t"
    and "\<forall>(k, m, rq, cd, av) \<in> set reqs.
           contact_email cd = I \<and> t0 \<le> m \<and> k < t0 + timedelta_minutes 1"
  shows "create_contacts upload reqs st =
         map (\<lambda>x. \<lparr>state_after = st, effects = [],
                    result = (if is_verified st I
                       then Inl (HTTPException 429 (Text ''Too Many Requests. Try again later.''))
                       else Inl (HTTPException 401 (Text ''User not registered or not verified'')))\<rparr>) reqs"
  using assms
proof (induction reqs)
  case Nil
  then show ?case by simp
next
  case (Cons x xs)
  obtain k m rq cd av where x: "x = (k, m, rq, cd, av)" by (cases x)
  from Cons.prems x have I: "contact_email cd = I" and lt: "k - t < timedelta_minutes 1"
    by auto
  have no: "\<not> can_create_contact I (timedelta_minutes 1) k st"
    by (rule can_create_contact_within[OF Cons.prems(1) lt])
  have out: "create_contact k m upload rq (cd, av) st =
      \<lparr>state_after = st, effects = [],
       result = (if is_verified st I
                 then Inl (HTTPException 429 (Text ''Too Many Requests. Try again later.''))
                 else Inl (HTTPException 401 (Text ''User not registered or not verified'')))\<rparr>"
    using no I by (simp add: create_contact_def Let_def)
  have "create_contacts upload xs st =
         map (\<lambda>x. \<lparr>state_after = st, effects = [],
                    result = (if is_verified st I
                       then Inl (HTTPException 429 (Text ''Too Many Requests. Try again later.''))
                       else Inl (HTTPException 401 (Text ''User not registered or not verified'')))\<rparr>) xs"
    using Cons by simp
  then show ?case by (simp add: x out Let_def)
qed

section \<open>The verification state machine\<close>

text \<open>
  C1, as stated: no operation takes a verified identity out of the verified state. It
  fails on the reachable state \<open>alice_verified\<close>: registering \<open>alice\<close> again overwrites
  her entry with \<^verbatim>\<open>"verified": False\<close>.
\<close>

theorem reregistration_unverifies:
  "is_verified alice_verified alice \<and>
   \<not> is_verified (state_after (step parseaddr_bare upload_ok
        (Register (UserRegistration alice) ''U'') alice_verified)) alice"
  by (simp add: is_verified_def alice_verified_users register_user_def parseaddr_bare_def)
     (simp add: alice_def)

text \<open>
  C1, amended: from any state in which identity \<open>I\<close> is verified, one operation leaves
  \<open>I\<close> verified unless it is a registration of \<open>I\<close> itself that passes the address check;
  verification, contact creation, a registration of another identity and a rejected
  registration all keep \<open>I\<close> verified, and an accepted registration of \<open>I\<close> resets it.
\<close>

theorem verified_preserved:
  assumes "is_verified st I"
  shows "is_verified (state_after (step parseaddr upload x st)) I \<longleftrightarrow>
         \<not> (\<exists>t. x = Register (UserRegistration I) t \<and>
                snd (parseaddr I) \<noteq> [] \<and> CHR ''@'' \<in> set I)"
proof (cases x)
  case (Register ud t)
  obtain e where ud: "ud = UserRegistration e" by (cases ud)
  show ?thesis using assms Register ud
    by (auto simp: is_verified_def register_user_def Let_def)
next
  case (Verify e t)
  then show ?thesis using assms
    by (auto simp: is_verified_def verify_email_def split: option.splits)
next
  case (CreateContact rq cd av c r k m)
  then show ?thesis using assms
    by (simp add: is_verified_def route_users)
qed

theorem verified_preserved_witness:
  "is_verified alice_verified alice \<and>
   is_verified (state_after (step parseaddr_bare upload_ok (Verify alice ''wrong'')
     alice_verified)) alice"
proof -
  have h: "is_verified alice_verified alice"
    by (simp add: is_verified_def alice_verified_users)
  have "is_verified (state_after (step parseaddr_bare upload_ok (Verify alice ''wrong'')
          alice_verified)) alice"
    using verified_preserved[OF h, of parseaddr_bare upload_ok "Verify alice ''wrong''"] by simp
  with h show ?thesis by (intro conjI)
qed

section \<open>The request throttle\<close>

text \<open>
  C2: two throttle acquisitions for the same origin. The first one passes the gate (the
  origin has no entry, or its entry is at least \<open>per\<close> old) and its handler leaves
  \<open>request_counts\<close> alone; it records the time \<open>r1\<close>. The elapsed time of the second is
  its clock read \<open>c2\<close> minus \<open>r1\<close>. If that is less than \<open>per\<close>, the second is refused
  with status 429 and the remaining wait \<open>per - elapsed\<close>, a \<open>timedelta\<close> in
  microseconds, and nothing else happens; otherwise the second passes: its handler runs
  on the state with the origin's entry set to the new time.
\<close>

theorem throttle_two_acquisitions:
  fixes func1 :: "Request \<Rightarrow> 'a \<Rightarrow> state \<Rightarrow> outcome"
    and func2 :: "Request \<Rightarrow> 'b \<Rightarrow> state \<Rightarrow> outcome"
  assumes same: "host (client req1) = origin" "host (client req2) = origin"
    and first_passes: "request_counts st origin = None \<or>
           (\<exists>t. request_counts st origin = Some t \<and> per \<le> c1 - t)"
    and frame: "\<And>s. request_counts (state_after (func1 req1 args1 s)) = request_counts s"
    and s1: "s1 = state_after (rate_limit limit per func1 c1 r1 req1 args1 st)"
  shows "rate_limit limit per func2 c2 r2 req2 args2 s1 =
     (if c2 - r1 < per
      then \<lparr>state_after = s1, effects = [],
            result = Inl (HTTPException 429 (TryAgainIn (per - (c2 - r1))))\<rparr>
      else func2 req2 args2 (s1\<lparr>request_counts := (request_counts s1)(origin \<mapsto> r2)\<rparr>))"
proof -
  have "rate_limit limit per func1 c1 r1 req1 args1 st =
        func1 req1 args1 (st\<lparr>request_counts := (request_counts st)(origin \<mapsto> r1)\<rparr>)"
    using rate_limit_passes[of st req1 per c1] first_passes same by simp
  then have rec: "request_counts s1 (host (client req2)) = Some r1"
    using frame s1 same by simp
  show ?thesis
  proof (cases "c2 - r1 < per")
    case True
    then show ?thesis using rate_limit_rejects[OF rec True] by simp
  next
    case False
    then have "request_counts s1 (host (client req2)) = None \<or>
           (\<exists>t. request_counts s1 (host (client req2)) = Some t \<and> per \<le> c2 - t)"
      using rec by simp
    from rate_limit_passes[OF this] False same show ?thesis by simp
  qed
qed

theorem throttle_two_acquisitions_witness:
  "rate_limit 5 (timedelta_minutes 1) (create_contact 40000000 40000000 upload_ok)
     40000000 40000000 (request_from ''10.0.0.1'') (ContactCreate alice, png)
     (state_after (rate_limit 5 (timedelta_minutes 1) (create_contact 0 0 upload_ok)
        0 500 (request_from ''10.0.0.1'') (ContactCreate alice, png) initial_state)) =
   \<lparr>state_after = state_after (rate_limit 5 (timedelta_minutes 1) (create_contact 0 0 upload_ok)
        0 500 (request_from ''10.0.0.1'') (ContactCreate alice, png) initial_state),
    effects = [],
    result = Inl (HTTPException 429 (TryAgainIn 20000500))\<rparr>"
proof -
  have h1: "host (client (request_from ''10.0.0.1'')) = ''10.0.0.1''"
    by (simp add: request_from_def)
  have h2: "request_counts initial_state ''10.0.0.1'' = None \<or>
      (\<exists>t. request_counts initial_state ''10.0.0.1'' = Some t \<and> timedelta_minutes 1 \<le> 0 - t)"
    by (simp add: initial_state_def)
  have h3: "\<And>s. request_counts (state_after (create_contact 0 0 upload_ok
      (request_from ''10.0.0.1'') (ContactCreate alice, png) s)) = request_counts s"
    by (rule create_contact_request_counts)
  show ?thesis
    using throttle_two_acquisitions[where ?func1.0 = "create_contact 0 0 upload_ok"
        and ?req1.0 = "request_from ''10.0.0.1''" and ?args1.0 = "(ContactCreate alice, png)"
        and ?func2.0 = "create_contact 40000000 40000000 upload_ok"
        and ?args2.0 = "(ContactCreate alice, png)"
        and limit = 5 and ?r1.0 = 500 and ?c2.0 = 40000000 and ?r2.0 = 40000000,
        OF h1 h1 h2 h3 refl]
    by (simp add: timedelta_minutes_def)
qed

text \<open>
  C4: an elapsed time exactly equal to the period is permitted by both gates. With the
  origin's entry \<open>t1\<close> and the identity's entry \<open>t2\<close> each exactly \<open>per\<close> before the
  clock read, the decorator passes (the handler runs, on the state with the new entry)
  and \<^verbatim>\<open>can_create_contact\<close> returns true.
\<close>

theorem boundary_is_permitted:
  assumes "request_counts st (host (client req)) = Some t1" and "c - t1 = per"
    and "last_contact_time st I = Some t2" and "now - t2 = per"
  shows "rate_limit limit per func c r req args st =
           func req args (st\<lparr>request_counts := (request_counts st)(host (client req) \<mapsto> r)\<rparr>) \<and>
         can_create_contact I per now st"
  using assms by (simp add: rate_limit_def can_create_contact_def Let_def)

theorem boundary_is_permitted_witness:
  "result (rate_limit 5 (timedelta_minutes 1) (create_contact 60000007 60000007 upload_ok)
      60000000 60000003 (request_from ''10.0.0.1'') (ContactCreate alice, png)
      \<lparr>request_counts = [''10.0.0.1'' \<mapsto> 0], last_contact_time = [alice \<mapsto> 7],
       users = [alice \<mapsto> \<lparr>verified = True, verification_token = ''T''\<rparr>]\<rparr>) =
     Inr [(''message'', ''Contact created successfully''),
          (''avatar_url'', ''https://res.example/avatar.png'')] \<and>
   can_create_contact alice (timedelta_minutes 1) 60000007
      \<lparr>request_counts = [''10.0.0.1'' \<mapsto> 0], last_contact_time = [alice \<mapsto> 7],
       users = [alice \<mapsto> \<lparr>verified = True, verification_token = ''T''\<rparr>]\<rparr>"
proof -
  let ?st = "\<lparr>request_counts = [''10.0.0.1'' \<mapsto> 0], last_contact_time = [alice \<mapsto> 7],
       users = [alice \<mapsto> \<lparr>verified = True, verification_token = ''T''\<rparr>]\<rparr>"
  have h1: "request_counts ?st (host (client (request_from ''10.0.0.1''))) = Some 0"
    by (simp add: request_from_def)
  have h2: "(60000000::int) - 0 = timedelta_minutes 1" by (simp add: timedelta_minutes_def)
  have h3: "last_contact_time ?st alice = Some 7" by simp
  have h4: "(60000007::int) - 7 = timedelta_minutes 1" by (simp add: timedelta_minutes_def)
  from boundary_is_permitted[OF h1 h2 h3 h4, of 5 "create_contact 60000007 60000007 upload_ok"
      60000003 "(ContactCreate alice, png)"]
  show ?thesis
    by (simp add: request_from_def create_contact_def is_verified_def upload_ok_def png_def
        can_create_contact_def timedelta_minutes_def Let_def)
qed

text \<open>
  C6: once a contact-creation request passes the throttle gate, the origin's entry of
  \<open>request_counts\<close> is the time \<open>r\<close> read at line 92, whatever the handler then
  returns; and when the email has no entry in \<open>users\<close> the request fails with 401.
\<close>

theorem throttle_recorded_unconditionally:
  assumes "request_counts st (host (client req)) = None \<or>
           (\<exists>t. request_counts st (host (client req)) = Some t \<and> timedelta_minutes 1 \<le> c - t)"
  shows "request_counts (state_after (create_contact_route c r k m upload req (cd, av) st))
           (host (client req)) = Some r \<and>
         (users st (contact_email cd) = None \<longrightarrow>
            result (create_contact_route c r k m upload req (cd, av) st) =
              Inl (HTTPException 401 (Text ''User not registered or not verified'')))"
proof -
  let ?st' = "st\<lparr>request_counts := (request_counts st)(host (client req) \<mapsto> r)\<rparr>"
  have eq: "create_contact_route c r k m upload req (cd, av) st =
            create_contact k m upload req (cd, av) ?st'"
    unfolding create_contact_route_def by (rule rate_limit_passes[OF assms])
  have "users st (contact_email cd) = None \<Longrightarrow>
        result (create_contact k m upload req (cd, av) ?st') =
          Inl (HTTPException 401 (Text ''User not registered or not verified''))"
    by (simp add: create_contact_def is_verified_def)
  then show ?thesis
    unfolding eq by (simp add: create_contact_request_counts)
qed

theorem throttle_recorded_unconditionally_witness:
  "request_counts (state_after (create_contact_route 10 11 12 13 upload_ok
       (request_from ''10.0.0.1'') (ContactCreate alice, png) initial_state)) ''10.0.0.1'' =
     Some 11 \<and>
   result (create_contact_route 10 11 12 13 upload_ok
       (request_from ''10.0.0.1'') (ContactCreate alice, png) initial_state) =
     Inl (HTTPException 401 (Text ''User not registered or not verified''))"
proof -
  have h: "request_counts initial_state (host (client (request_from ''10.0.0.1''))) = None \<or>
           (\<exists>t. request_counts initial_state (host (client (request_from ''10.0.0.1''))) = Some t \<and>
                timedelta_minutes 1 \<le> 10 - t)"
    by (simp add: initial_state_def)
  from throttle_recorded_unconditionally[OF h, of 11 12 13 upload_ok "ContactCreate alice" png]
  show ?thesis by (simp add: request_from_def initial_state_def)
qed



section \<open>Verification\<close>

text \<open>
  C5: \<^verbatim>\<open>verify_email\<close> succeeds exactly when the identity has an entry whose stored
  token equals the supplied one (equality of strings, so case matters). Then the entry's
  flag is set and nothing else changes. Otherwise, whether the identity is unknown or the
  token differs, the result is the same 400 with the same detail and the state is untouched.
\<close>

theorem verify_email_spec:
  "((\<exists>r. result (verify_email email token st) = Inr r) \<longleftrightarrow>
      (\<exists>u. users st email = Some u \<and> verification_token u = token)) \<and>
   (\<forall>u. users st email = Some u \<and> verification_token u = token \<longrightarrow>
      verify_email email token st =
        \<lparr>state_after = st\<lparr>users := (users st)(email \<mapsto> u\<lparr>verified := True\<rparr>)\<rparr>,
         effects = [],
         result = Inr [(''message'', ''Email verified successfully'')]\<rparr>) \<and>
   (\<not> (\<exists>u. users st email = Some u \<and> verification_token u = token) \<longrightarrow>
      verify_email email token st =
        \<lparr>state_after = st, effects = [],
         result = Inl (HTTPException 400 (Text ''Invalid email or token''))\<rparr>)"
  by (auto simp: verify_email_def split: option.splits)

theorem verify_email_spec_witness:
  "verify_email alice ''t'' alice_registered =
     \<lparr>state_after = alice_registered, effects = [],
      result = Inl (HTTPException 400 (Text ''Invalid email or token''))\<rparr> \<and>
   verify_email ''b@example.com'' ''T'' alice_registered =
     \<lparr>state_after = alice_registered, effects = [],
      result = Inl (HTTPException 400 (Text ''Invalid email or token''))\<rparr> \<and>
   is_verified (state_after (verify_email alice ''T'' alice_registered)) alice"
proof -
  have u: "users alice_registered alice = Some \<lparr>verified = False, verification_token = ''T''\<rparr>"
    by (simp add: alice_registered_eq)
  have n: "users alice_registered ''b@example.com'' = None"
    by (simp add: alice_registered_eq alice_def)
  have a: "\<not> (\<exists>u. users alice_registered alice = Some u \<and> verification_token u = ''t'')"
    by (simp add: u)
  have b: "\<not> (\<exists>u. users alice_registered ''b@example.com'' = Some u \<and>
                  verification_token u = ''T'')"
    by (simp add: n)
  have c: "users alice_registered alice = Some \<lparr>verified = False, verification_token = ''T''\<rparr> \<and>
           verification_token \<lparr>verified = False, verification_token = ''T''\<rparr> = ''T''"
    by (simp add: u)
  from verify_email_spec[of alice "''t''" alice_registered] a
       verify_email_spec[of "''b@example.com''" "''T''" alice_registered] b
       verify_email_spec[of alice "''T''" alice_registered] c
  show ?thesis by (simp add: is_verified_def)
qed

text \<open>
  C8: after identity \<open>I\<close> is registered (with an address that passes the check) and token
  \<open>T\<close>, it is unverified; one \<^verbatim>\<open>verify_email\<close> with \<open>T\<close> succeeds and makes it
  verified; a second one with the same token succeeds as well and changes nothing.
\<close>

theorem verify_once_then_idempotent:
  assumes valid: "snd (parseaddr I) \<noteq> []" "CHR ''@'' \<in> set I"
    and s1: "s1 = state_after (register_user parseaddr T (UserRegistration I) st)"
    and o2: "o2 = verify_email I T s1"
    and o3: "o3 = verify_email I T (state_after o2)"
  shows "\<not> is_verified s1 I \<and>
         result o2 = Inr [(''message'', ''Email verified successfully'')] \<and>
         is_verified (state_after o2) I \<and>
         result o3 = Inr [(''message'', ''Email verified successfully'')] \<and>
         is_verified (state_after o3) I \<and>
         state_after o3 = state_after o2"
  using assms by (simp add: register_user_def verify_email_def is_verified_def Let_def)

theorem verify_once_then_idempotent_witness:
  "\<not> is_verified (run parseaddr_bare upload_ok
        [Register (UserRegistration alice) ''T''] initial_state) alice \<and>
   is_verified (run parseaddr_bare upload_ok
      [Register (UserRegistration alice) ''T'', Verify alice ''T''] initial_state) alice \<and>
   is_verified (run parseaddr_bare upload_ok
      [Register (UserRegistration alice) ''T'', Verify alice ''T'', Verify alice ''T'']
      initial_state) alice"
proof -
  have h1: "snd (parseaddr_bare alice) \<noteq> []" by (simp add: parseaddr_bare_def alice_def)
  have h2: "CHR ''@'' \<in> set alice" by (simp add: alice_def)
  from verify_once_then_idempotent[where parseaddr = parseaddr_bare and T = "''T''"
      and st = initial_state, OF h1 h2 refl refl refl]
  show ?thesis by simp
qed

section \<open>The cooldown in contact creation\<close>

text \<open>
  C3: a contact creation for an identity succeeds and commits the time \<open>m1\<close>; the next
  request to the route for the same identity passes the throttle check and reads the
  clock for the cooldown at \<open>k2\<close>, less than one minute after \<open>m1\<close>. Then it fails with
  429 and the fixed detail without a waiting time, the media store is not called, and
  the identity's cooldown entry stays \<open>m1\<close>. The period of the route is the constant one
  minute; the gate itself refuses for every period \<open>per\<close> that exceeds the elapsed time.
\<close>

theorem cooldown_rejects_second_creation:
  assumes first: "out1 = create_contact_route c1 r1 k1 m1 upload1 req1 (cd1, av1) st"
    and success: "result out1 = Inr resp"
    and second: "out2 = create_contact_route c2 r2 k2 m2 upload2 req2 (cd2, av2) (state_after out1)"
    and same: "contact_email cd2 = contact_email cd1"
    and throttle: "request_counts (state_after out1) (host (client req2)) = None \<or>
        (\<exists>t. request_counts (state_after out1) (host (client req2)) = Some t \<and>
             timedelta_minutes 1 \<le> c2 - t)"
    and within: "k2 - m1 < timedelta_minutes 1"
  shows "result out2 = Inl (HTTPException 429 (Text ''Too Many Requests. Try again later.'')) \<and>
         effects out2 = [] \<and>
         last_contact_time (state_after out2) (contact_email cd1) = Some m1 \<and>
         (\<forall>per now. now - m1 < per \<longrightarrow>
            \<not> can_create_contact (contact_email cd1) per now (state_after out1))"
proof -
  let ?I = "contact_email cd1"
  let ?s1 = "state_after out1"
  let ?s1' = "?s1\<lparr>request_counts := (request_counts ?s1)(host (client req2) \<mapsto> r2)\<rparr>"
  from route_success[of c1 r1 k1 m1 upload1 req1 cd1 av1 st resp] first success
  have ver0: "is_verified st ?I" and last: "last_contact_time ?s1 ?I = Some m1"
    by simp_all
  have ver: "is_verified ?s1' ?I"
    using ver0 first by (simp add: is_verified_def route_users)
  have last': "last_contact_time ?s1' ?I = Some m1"
    using last by simp
  have no: "\<not> can_create_contact ?I (timedelta_minutes 1) k2 ?s1'"
    by (rule can_create_contact_within[OF last' within])
  have "out2 = create_contact k2 m2 upload2 req2 (cd2, av2) ?s1'"
    unfolding second create_contact_route_def by (rule rate_limit_passes[OF throttle])
  then have out2: "out2 = \<lparr>state_after = ?s1', effects = [],
      result = Inl (HTTPException 429 (Text ''Too Many Requests. Try again later.''))\<rparr>"
    using ver no same by (simp add: create_contact_def Let_def)
  have gate: "\<forall>per now. now - m1 < per \<longrightarrow> \<not> can_create_contact ?I per now ?s1"
    using can_create_contact_within[OF last] by blast
  show ?thesis using out2 last' gate by simp
qed

text \<open>
  The same origin sends both requests: the first records its throttle entry at 0 and
  commits the cooldown at 5 microseconds; the second reads the throttle clock at exactly
  one minute and the cooldown clock one microsecond later.
\<close>

theorem cooldown_rejects_second_creation_witness:
  "result (create_contact_route 60000000 60000000 60000001 60000001 upload_ok
      (request_from ''10.0.0.1'') (ContactCreate alice, png)
      (state_after (create_contact_route 0 0 2 5 upload_ok
         (request_from ''10.0.0.1'') (ContactCreate alice, png) alice_verified))) =
     Inl (HTTPException 429 (Text ''Too Many Requests. Try again later.'')) \<and>
   effects (create_contact_route 60000000 60000000 60000001 60000001 upload_ok
      (request_from ''10.0.0.1'') (ContactCreate alice, png)
      (state_after (create_contact_route 0 0 2 5 upload_ok
         (request_from ''10.0.0.1'') (ContactCreate alice, png) alice_verified))) = []"
proof -
  let ?out1 = "create_contact_route 0 0 2 5 upload_ok
         (request_from ''10.0.0.1'') (ContactCreate alice, png) alice_verified"
  have o1: "?out1 = \<lparr>state_after = alice_verified\<lparr>
        request_counts := [''10.0.0.1'' \<mapsto> 0], last_contact_time := [alice \<mapsto> 5]\<rparr>,
      effects = [Upload ''png''],
      result = Inr [(''message'', ''Contact created successfully''),
                    (''avatar_url'', ''https://res.example/avatar.png'')]\<rparr>"
    by (simp add: create_contact_route_def rate_limit_def create_contact_def Let_def
        is_verified_def alice_verified_users can_create_contact_def alice_verified_gates
        request_from_def upload_ok_def png_def)
  have h2: "result ?out1 = Inr [(''message'', ''Contact created successfully''),
                    (''avatar_url'', ''https://res.example/avatar.png'')]"
    by (simp add: o1)
  have h4: "contact_email (ContactCreate alice) = contact_email (ContactCreate alice)"
    by simp
  have h5: "request_counts (state_after ?out1) (host (client (request_from ''10.0.0.1''))) = None \<or>
        (\<exists>t. request_counts (state_after ?out1) (host (client (request_from ''10.0.0.1''))) = Some t \<and>
             timedelta_minutes 1 \<le> 60000000 - t)"
    unfolding o1 by (simp add: request_from_def timedelta_minutes_def)
  have h6: "(60000001::int) - 5 < timedelta_minutes 1"
    by (simp add: timedelta_minutes_def)
  from cooldown_rejects_second_creation[OF refl h2 refl h4 h5 h6,
      of 60000000 60000001 upload_ok png]
  show ?thesis by (intro conjI) simp_all
qed

text \<open>
  C7: in contact creation the cooldown entry is written exactly when all three guards
  pass (throttle, verified identity, cooldown), and the media store is called after
  that: with the guards passed the identity's entry is the time \<open>m\<close> read at line 171
  and the upload is the one effect, and when the upload raises, the exception is the
  result while the entry stays written. When a guard fails, \<open>last_contact_time\<close> is
  unchanged and the media store is not called.
\<close>

theorem cooldown_committed_before_upload:
  assumes out: "out = create_contact_route c r k m upload req (cd, av) st"
    and guards: "guards \<longleftrightarrow>
      (request_counts st (host (client req)) = None \<or>
       (\<exists>t. request_counts st (host (client req)) = Some t \<and> timedelta_minutes 1 \<le> c - t)) \<and>
      is_verified st (contact_email cd) \<and>
      can_create_contact (contact_email cd) (timedelta_minutes 1) k st"
  shows "(guards \<longrightarrow>
            last_contact_time (state_after out) =
              (last_contact_time st)(contact_email cd \<mapsto> m) \<and>
            effects out = [Upload (avatar_file av)] \<and>
            (\<forall>e. upload (avatar_file av) = Inl e \<longrightarrow> result out = Inl (UploadError e))) \<and>
         (\<not> guards \<longrightarrow>
            last_contact_time (state_after out) = last_contact_time st \<and> effects out = [])"
proof (cases "request_counts st (host (client req)) = None \<or>
       (\<exists>t. request_counts st (host (client req)) = Some t \<and> timedelta_minutes 1 \<le> c - t)")
  case True
  let ?st' = "st\<lparr>request_counts := (request_counts st)(host (client req) \<mapsto> r)\<rparr>"
  have eq: "out = create_contact k m upload req (cd, av) ?st'"
    unfolding out create_contact_route_def by (rule rate_limit_passes[OF True])
  have same: "is_verified ?st' (contact_email cd) = is_verified st (contact_email cd)"
    "can_create_contact (contact_email cd) (timedelta_minutes 1) k ?st' =
     can_create_contact (contact_email cd) (timedelta_minutes 1) k st"
    by (simp_all add: is_verified_def can_create_contact_def)
  show ?thesis
    unfolding eq guards using True same
    by (auto simp: create_contact_def Let_def split: sum.splits option.splits)
next
  case False
  then obtain t where t: "request_counts st (host (client req)) = Some t"
    and lt: "c - t < timedelta_minutes 1"
    by (cases "request_counts st (host (client req))") auto
  have "out = \<lparr>state_after = st, effects = [],
      result = Inl (HTTPException 429 (TryAgainIn (timedelta_minutes 1 - (c - t))))\<rparr>"
    unfolding out create_contact_route_def by (rule rate_limit_rejects[OF t lt])
  then show ?thesis using False guards by simp
qed

theorem cooldown_committed_before_upload_witness:
  "last_contact_time (state_after (create_contact_route 10 11 12 13 upload_raises
     (request_from ''10.0.0.1'') (ContactCreate alice, png) alice_verified)) = [alice \<mapsto> 13] \<and>
   effects (create_contact_route 10 11 12 13 upload_raises
     (request_from ''10.0.0.1'') (ContactCreate alice, png) alice_verified) = [Upload ''png''] \<and>
   result (create_contact_route 10 11 12 13 upload_raises
     (request_from ''10.0.0.1'') (ContactCreate alice, png) alice_verified) =
     Inl (UploadError ''Error'')"
proof -
  let ?out = "create_contact_route 10 11 12 13 upload_raises (request_from ''10.0.0.1'')
     (ContactCreate alice, png) alice_verified"
  have g: "True \<longleftrightarrow>
      (request_counts alice_verified (host (client (request_from ''10.0.0.1''))) = None \<or>
       (\<exists>t. request_counts alice_verified (host (client (request_from ''10.0.0.1''))) = Some t \<and>
            timedelta_minutes 1 \<le> 10 - t)) \<and>
      is_verified alice_verified (contact_email (ContactCreate alice)) \<and>
      can_create_contact (contact_email (ContactCreate alice)) (timedelta_minutes 1) 12
        alice_verified"
    by (simp add: is_verified_def alice_verified_users can_create_contact_def
        alice_verified_gates)
  have h3: "upload_raises (avatar_file png) = Inl ''Error''"
    by (simp add: upload_raises_def)
  from cooldown_committed_before_upload[where upload = upload_raises and out = ?out
      and guards = True, OF refl g] h3
  have "last_contact_time (state_after ?out) =
          (last_contact_time alice_verified)(contact_email (ContactCreate alice) \<mapsto> 13) \<and>
        effects ?out = [Upload (avatar_file png)] \<and>
        result ?out = Inl (UploadError ''Error'')"
    by blast
  then show ?thesis by (simp add: alice_verified_gates png_def)
qed

text \<open>
  C9: \<open>N > 1\<close> acquisitions of the cooldown gate arrive together for one verified
  identity that has no cooldown entry, their clock reads within one cooldown period of
  each other. Check (line 166) and set (line 171) of one request run without yielding,
  so the requests are served in some order, and the theorem holds for every order, the
  list being arbitrary: exactly one request is not refused, the one served first, and
  the other \<open>N - 1\<close> are refused with the cooldown's 429 and call no upload.
\<close>

theorem one_acquisition_among_many:
  assumes verified: "is_verified st I"
    and fresh: "last_contact_time st I = None"
    and window: "\<forall>(k, m, rq, cd, av) \<in> set reqs.
           contact_email cd = I \<and> t0 \<le> m \<and> k < t0 + timedelta_minutes 1"
    and many: "1 < length reqs"
    and outs: "outs = create_contacts upload reqs st"
  shows "length (filter (\<lambda>out. \<not> cooldown_refused out) outs) = 1 \<and>
         length (filter (\<lambda>out. cooldown_refused out \<and> effects out = []) outs) = length reqs - 1 \<and>
         \<not> cooldown_refused (hd outs)"
proof -
  from many obtain x xs where reqs: "reqs = x # xs" by (cases reqs) auto
  obtain k m rq cd av where x: "x = (k, m, rq, cd, av)" by (cases x)
  let ?first = "create_contact k m upload rq (cd, av) st"
  let ?s1 = "state_after ?first"
  from window reqs x have I: "contact_email cd = I" and m: "t0 \<le> m"
    and rest: "\<forall>(k, m, rq, cd, av) \<in> set xs.
           contact_email cd = I \<and> t0 \<le> m \<and> k < t0 + timedelta_minutes 1"
    by auto
  have can: "can_create_contact I (timedelta_minutes 1) k st"
    using fresh by (simp add: can_create_contact_def)
  have first: "\<not> cooldown_refused ?first"
    using verified can I
    by (simp add: cooldown_refused_def create_contact_def Let_def split: sum.splits option.splits)
  have entry: "last_contact_time ?s1 I = Some m"
    using verified can I
    by (simp add: create_contact_def Let_def split: sum.splits option.splits)
  have ver: "is_verified ?s1 I"
    using verified by (simp add: is_verified_def create_contact_users)
  have tail: "create_contacts upload xs ?s1 =
      map (\<lambda>x. \<lparr>state_after = ?s1, effects = [],
                 result = Inl (HTTPException 429 (Text ''Too Many Requests. Try again later.''))\<rparr>) xs"
    using create_contacts_within_entry[OF entry m rest, of upload] ver by simp
  have outs': "outs = ?first # create_contacts upload xs ?s1"
    using outs reqs x by (simp add: Let_def)
  show ?thesis
    unfolding outs' tail using first reqs
    by (simp add: cooldown_refused_def filter_map comp_def)
qed

theorem one_acquisition_among_many_witness:
  "length (filter (\<lambda>out. \<not> cooldown_refused out)
     (create_contacts upload_ok
        [(0::int, 1::int, request_from ''10.0.0.1'', (ContactCreate alice, png)),
         (2, 3, request_from ''10.0.0.2'', (ContactCreate alice, png)),
         (4, 5, request_from ''10.0.0.3'', (ContactCreate alice, png))]
        alice_verified)) = 1 \<and>
   length (filter (\<lambda>out. cooldown_refused out \<and> effects out = [])
     (create_contacts upload_ok
        [(0::int, 1::int, request_from ''10.0.0.1'', (ContactCreate alice, png)),
         (2, 3, request_from ''10.0.0.2'', (ContactCreate alice, png)),
         (4, 5, request_from ''10.0.0.3'', (ContactCreate alice, png))]
        alice_verified)) = 2"
proof -
  let ?reqs = "[(0::int, 1::int, request_from ''10.0.0.1'', (ContactCreate alice, png)),
         (2, 3, request_from ''10.0.0.2'', (ContactCreate alice, png)),
         (4, 5, request_from ''10.0.0.3'', (ContactCreate alice, png))]"
  have h1: "is_verified alice_verified alice"
    by (simp add: is_verified_def alice_verified_users)
  have h2: "last_contact_time alice_verified alice = None"
    by (simp add: alice_verified_gates)
  have h3: "\<forall>(k, m, rq, cd, av) \<in> set ?reqs.
           contact_email cd = alice \<and> (0::int) \<le> m \<and> k < 0 + timedelta_minutes 1"
    by (simp add: timedelta_minutes_def)
  have h4: "1 < length ?reqs" by simp
  from one_acquisition_among_many[OF h1 h2 h3 h4 refl, of upload_ok]
  show ?thesis by simp
qed

end
